theory Spec2Isabelle
  imports Main "HOL-Library.Char_ord" "HOL-Library.List_Lexorder" "HOL-Library.Product_Lexorder"
begin

section \<open>The fixed catalogs (generate_key_combos.py, US_KEYS and MODIFIERS)\<close>

text \<open>
  Key names are Python strings; every name the scripts use is ASCII, and the model
  represents a name as a \<open>string\<close> of ASCII characters. A Combination is the tuple
  \<open>(key, ctrl, shift, alt)\<close> the retry script builds. The catalog lists the keys in
  the order of the source; the ten number keys '0' to '9' are written as the
  one-character strings of "0123456789".
\<close>

type_synonym combo = "string \<times> bool \<times> bool \<times> bool"

definition US_KEYS :: "string list" where
  "US_KEYS =
    [''a'', ''b'', ''c'', ''d'', ''e'', ''f'', ''g'', ''h'', ''i'', ''j'', ''k'', ''l'', ''m'',
     ''n'', ''o'', ''p'', ''q'', ''r'', ''s'', ''t'', ''u'', ''v'', ''w'', ''x'', ''y'', ''z'']
    @ map (\<lambda>digit. [digit]) ''0123456789''
    @ [[CHR 0x60], ''-'', ''='', ''['', '']'', [CHR 0x5C], '';'', [CHR 0x27], '','', ''.'', ''/'',
     ''space'', ''enter'', ''tab'', ''backspace'', ''escape'',
     ''up'', ''down'', ''left'', ''right'',
     ''f1'', ''f2'', ''f3'', ''f4'', ''f5'', ''f6'', ''f7'', ''f8'', ''f9'', ''f10'', ''f11'', ''f12'',
     ''home'', ''end'', ''page up'', ''page down'', ''insert'', ''delete'']"

definition MODIFIERS :: "(bool \<times> bool \<times> bool) list" where
  "MODIFIERS =
    [(False, False, False),
     (True, False, False),
     (False, True, False),
     (False, False, True),
     (True, True, False),
     (True, False, True),
     (False, True, True),
     (True, True, True)]"

section \<open>Combination Space Generator (retry_failed_combos.py, generate_all_combinations)\<close>

text \<open>
  The nested loop: for each key of \<open>US_KEYS\<close>, in order, one tuple per entry of
  \<open>MODIFIERS\<close>, in order, appended to the result.
\<close>

definition generate_all_combinations :: "combo list" where
  "generate_all_combinations =
     concat (map (\<lambda>key. map (\<lambda>(ctrl, shift, alt). (key, ctrl, shift, alt)) MODIFIERS) US_KEYS)"

section \<open>Python string operations on ASCII strings\<close>

text \<open>
  \<open>str.isspace\<close>, \<open>str.isalpha\<close>, \<open>str.isalnum\<close>, \<open>str.upper\<close>, \<open>str.lower\<close>,
  \<open>str.strip\<close>, \<open>str.startswith\<close>, \<open>str.join\<close> and \<open>int(str)\<close>, as Python defines
  them on strings whose characters are all below 128 (\<open>ascii_only\<close>). Strings with a
  character from 128 on are outside the model, and the statements about arbitrary
  strings below assume \<open>ascii_only\<close>.
\<close>

definition ascii_only :: "string \<Rightarrow> bool" where
  "ascii_only s = list_all (\<lambda>c. (of_char c :: nat) < 128) s"

text \<open>
  The whitespace of \<open>str.isspace\<close> and \<open>str.strip\<close>: tab to carriage return, the four
  separators 28 to 31, and the space.
\<close>

definition is_space :: "char \<Rightarrow> bool" where
  "is_space c = (let n = (of_char c :: nat) in (9 \<le> n \<and> n \<le> 13) \<or> (28 \<le> n \<and> n \<le> 32))"

definition is_digit :: "char \<Rightarrow> bool" where
  "is_digit c = (CHR ''0'' \<le> c \<and> c \<le> CHR ''9'')"

definition is_lower :: "char \<Rightarrow> bool" where
  "is_lower c = (CHR ''a'' \<le> c \<and> c \<le> CHR ''z'')"

definition is_upper :: "char \<Rightarrow> bool" where
  "is_upper c = (CHR ''A'' \<le> c \<and> c \<le> CHR ''Z'')"

definition isalpha :: "string \<Rightarrow> bool" where
  "isalpha s = (s \<noteq> [] \<and> list_all (\<lambda>c. is_lower c \<or> is_upper c) s)"

definition isalnum :: "string \<Rightarrow> bool" where
  "isalnum s = (s \<noteq> [] \<and> list_all (\<lambda>c. is_lower c \<or> is_upper c \<or> is_digit c) s)"

definition upper_char :: "char \<Rightarrow> char" where
  "upper_char c = (if is_lower c then char_of (of_char c - (32::nat)) else c)"

definition lower_char :: "char \<Rightarrow> char" where
  "lower_char c = (if is_upper c then char_of (of_char c + (32::nat)) else c)"

definition upper :: "string \<Rightarrow> string" where
  "upper s = map upper_char s"

definition lower :: "string \<Rightarrow> string" where
  "lower s = map lower_char s"

definition startswith :: "string \<Rightarrow> string \<Rightarrow> bool" where
  "startswith s p = (take (length p) s = p)"

definition strip :: "string \<Rightarrow> string" where
  "strip s = rev (dropWhile is_space (rev (dropWhile is_space s)))"

text \<open>
  The whitespace that \<open>int()\<close> skips around a literal is narrower: tab to carriage
  return and the space, without the separators 28 to 31.
\<close>

definition is_int_space :: "char \<Rightarrow> bool" where
  "is_int_space c = (let n = (of_char c :: nat) in (9 \<le> n \<and> n \<le> 13) \<or> n = 32)"

definition int_strip :: "string \<Rightarrow> string" where
  "int_strip s = rev (dropWhile is_int_space (rev (dropWhile is_int_space s)))"

fun join :: "string \<Rightarrow> string list \<Rightarrow> string" where
  "join sep [] = []"
| "join sep [x] = x"
| "join sep (x # y # ys) = x @ sep @ join sep (y # ys)"

definition digit_value :: "char \<Rightarrow> nat" where
  "digit_value c = of_char c - 48"

text \<open>
  The digits of a decimal literal as \<open>int()\<close> accepts them: at least one digit, and a
  single underscore only between two digits. The flag says that the character before
  was a digit.
\<close>

fun parse_digits :: "bool \<Rightarrow> nat \<Rightarrow> string \<Rightarrow> nat option" where
  "parse_digits after_digit acc [] = (if after_digit then Some acc else None)"
| "parse_digits after_digit acc (c # cs) =
     (if is_digit c then parse_digits True (10 * acc + digit_value c) cs
      else if c = CHR ''_'' \<and> after_digit then parse_digits False acc cs
      else None)"

text \<open>
  The interpreter's default limit on the number of digits of a decimal string that
  \<open>int()\<close> converts (\<open>sys.get_int_max_str_digits()\<close>); a longer literal raises
  \<open>ValueError\<close>.
\<close>

definition int_max_str_digits :: nat where
  "int_max_str_digits = 4300"

definition decimal_literal :: "string \<Rightarrow> nat option" where
  "decimal_literal cs =
     (if length (filter is_digit cs) > int_max_str_digits then None
      else parse_digits False 0 cs)"

text \<open>\<open>int(s)\<close> in base 10; \<open>None\<close> is the \<open>ValueError\<close>.\<close>

definition py_int :: "string \<Rightarrow> int option" where
  "py_int s =
     (case int_strip s of
        [] \<Rightarrow> None
      | c # cs \<Rightarrow>
          if c = CHR ''-'' then map_option (\<lambda>n. - int n) (decimal_literal cs)
          else if c = CHR ''+'' then map_option int (decimal_literal cs)
          else map_option int (decimal_literal (c # cs)))"

section \<open>Key Mapper (generate_key_combos.py, map_key_to_pynput)\<close>

text \<open>
  The backend's representations: the members of pynput's \<open>Key\<close> enumeration that the
  mapper can return, and \<open>KeyCode.from_char\<close> of a string.
\<close>

datatype Key =
    Key_space | Key_enter | Key_tab | Key_backspace | Key_esc
  | Key_up | Key_down | Key_left | Key_right
  | Key_home | Key_end | Key_page_up | Key_page_down | Key_insert | Key_delete
  | Key_f nat

datatype pynput_key = Key Key | KeyCode string

definition special_map :: "(string \<times> Key) list" where
  "special_map =
    [(''space'', Key_space),
     (''enter'', Key_enter),
     (''tab'', Key_tab),
     (''backspace'', Key_backspace),
     (''escape'', Key_esc),
     (''up'', Key_up),
     (''down'', Key_down),
     (''left'', Key_left),
     (''right'', Key_right),
     (''home'', Key_home),
     (''end'', Key_end),
     (''page up'', Key_page_up),
     (''page down'', Key_page_down),
     (''insert'', Key_insert),
     (''delete'', Key_delete)]"

definition symbol_map :: "(string \<times> string) list" where
  "symbol_map =
    [([CHR 0x60], [CHR 0x60]), (''-'', ''-''), (''='', ''=''), (''['', ''[''), ('']'', '']''),
     ([CHR 0x5C], [CHR 0x5C]), ('';'', '';''), ([CHR 0x27], [CHR 0x27]), ('','', '',''),
     (''.'', ''.''), (''/'', ''/'')]"

text \<open>
  The function-key branch: \<open>key.startswith('f')\<close>, then \<open>int(key[1:])\<close> inside a
  \<open>try\<close> whose \<open>except\<close> passes; a number from 1 to 12 returns \<open>getattr(Key, f'f{num}')\<close>,
  anything else falls through (\<open>None\<close> here).
\<close>

definition function_key :: "string \<Rightarrow> pynput_key option" where
  "function_key key =
     (if startswith key ''f'' then
        (case py_int (drop 1 key) of
           None \<Rightarrow> None
         | Some num \<Rightarrow> if 1 \<le> num \<and> num \<le> 12 then Some (Key (Key_f (nat num))) else None)
      else None)"

definition map_key_to_pynput :: "string \<Rightarrow> pynput_key option" where
  "map_key_to_pynput key =
     (case map_of special_map key of
        Some k \<Rightarrow> Some (Key k)
      | None \<Rightarrow>
          (case function_key key of
             Some k \<Rightarrow> Some k
           | None \<Rightarrow>
               if isalnum key then Some (KeyCode (if isalpha key then lower key else key))
               else
                 (case map_of symbol_map key of
                    Some char \<Rightarrow> if length char = 1 then Some (KeyCode char) else None
                  | None \<Rightarrow> None)))"

section \<open>The human-readable label of a combination\<close>

text \<open>
  The full sweep builds the label inline in \<open>generate_combinations\<close> (lines 365 to 373
  of generate_key_combos.py): a list \<open>combo_name\<close> that receives "Ctrl", "Shift" and
  "Alt" by three \<open>if\<close> statements, then the key, and is joined by "+".
\<close>

definition sweep_combo_str :: "string \<Rightarrow> bool \<Rightarrow> bool \<Rightarrow> bool \<Rightarrow> string" where
  "sweep_combo_str key ctrl shift alt =
     (let combo_name = [];
          combo_name = (if ctrl then combo_name @ [''Ctrl''] else combo_name);
          combo_name = (if shift then combo_name @ [''Shift''] else combo_name);
          combo_name = (if alt then combo_name @ [''Alt''] else combo_name);
          combo_name = combo_name @ [if isalpha key then upper key else key]
      in join ''+'' combo_name)"

text \<open>The retry tool's \<open>format_combo_str\<close> (retry_failed_combos.py, lines 89 to 99).\<close>

definition format_combo_str :: "string \<Rightarrow> bool \<Rightarrow> bool \<Rightarrow> bool \<Rightarrow> string" where
  "format_combo_str key ctrl shift alt =
     (let combo_name = [];
          combo_name = (if ctrl then combo_name @ [''Ctrl''] else combo_name);
          combo_name = (if shift then combo_name @ [''Shift''] else combo_name);
          combo_name = (if alt then combo_name @ [''Alt''] else combo_name);
          combo_name = combo_name @ [if isalpha key then upper key else key]
      in join ''+'' combo_name)"

text \<open>
  The label as the specification words it: the names of the active modifiers, in the
  order Ctrl, Shift, Alt, followed by the key name, upper-cased when alphabetic, all
  joined by "+".
\<close>

definition label_by_words :: "string \<Rightarrow> bool \<Rightarrow> bool \<Rightarrow> bool \<Rightarrow> string" where
  "label_by_words key ctrl shift alt =
     join ''+''
       (map snd (filter fst [(ctrl, ''Ctrl''), (shift, ''Shift''), (alt, ''Alt'')])
        @ [if isalpha key then upper key else key])"

section \<open>Capture records\<close>

text \<open>
  The helper prints one JSON object; \<open>capture_key_combo\<close> returns it parsed. The model
  keeps its three fields: \<open>vk\<close>, an integer that the scripts read with
  \<open>captured['vk']\<close>, and \<open>ascii\<close> and \<open>unicode\<close>, read with \<open>captured.get\<close>, which is
  \<open>None\<close> for an absent field as for a JSON null. An object with a \<open>vk\<close> entry is not
  empty, so the test \<open>if captured:\<close> of the loops holds for it.
\<close>

record captured =
  cap_vk :: int
  cap_ascii :: "int option"
  cap_unicode :: "int option"

text \<open>
  The dictionary the orchestrators build for one capture, and the JSON object of the
  store file. Field \<open>r_x\<close> is the entry "x" of the dictionary, and \<open>m_ctrl\<close>, \<open>m_shift\<close>,
  \<open>m_alt\<close> are the entries of its "modifiers" dictionary.
\<close>

record modifiers =
  m_ctrl :: bool
  m_shift :: bool
  m_alt :: bool

record capture_record =
  r_key :: string
  r_modifiers :: modifiers
  r_combo :: string
  r_vk :: string
  r_vk_decimal :: int
  r_ascii :: "int option"
  r_unicode :: "int option"
  r_ascii_hex :: "string option"
  r_unicode_hex :: "string option"

text \<open>The store file's top-level object.\<close>

record snapshot =
  generated_at :: string
  total_combinations :: nat
  combinations :: "capture_record list"

subsection \<open>Python's integer formatting\<close>

definition hex_digit :: "nat \<Rightarrow> char" where
  "hex_digit d = ''0123456789ABCDEF'' ! d"

fun hex_digits :: "nat \<Rightarrow> string" where
  "hex_digits n = (if n < 16 then [hex_digit n] else hex_digits (n div 16) @ [hex_digit (n mod 16)])"

declare hex_digits.simps [simp del]

text \<open>
  \<open>format(n, '0wX')\<close>: upper-case hexadecimal digits, padded with zeros after the sign
  to a total width of \<open>w\<close>.
\<close>

definition format_X :: "nat \<Rightarrow> int \<Rightarrow> string" where
  "format_X w n =
     (if n < 0
      then ''-'' @ replicate (w - 1 - length (hex_digits (nat (- n)))) CHR ''0'' @ hex_digits (nat (- n))
      else replicate (w - length (hex_digits (nat n))) CHR ''0'' @ hex_digits (nat n))"

text \<open>Truth value of \<open>captured.get(field)\<close>: \<open>None\<close> and the integer 0 are false.\<close>

definition truthy :: "int option \<Rightarrow> bool" where
  "truthy v = (case v of None \<Rightarrow> False | Some n \<Rightarrow> n \<noteq> 0)"

text \<open>\<open>captured.get(field, 0)\<close>, evaluated only where the field is truthy.\<close>

definition get_or :: "int option \<Rightarrow> int \<Rightarrow> int" where
  "get_or v d = (case v of None \<Rightarrow> d | Some n \<Rightarrow> n)"

text \<open>
  The dictionary literal of \<open>generate_combinations\<close> (generate_key_combos.py, lines 381
  to 395) and the one of \<open>retry_failed_combinations\<close> (retry_failed_combos.py, lines
  118 to 132).
\<close>

definition sweep_result :: "string \<Rightarrow> bool \<Rightarrow> bool \<Rightarrow> bool \<Rightarrow> string \<Rightarrow> captured \<Rightarrow> capture_record" where
  "sweep_result key ctrl shift alt combo_str captured =
     \<lparr> r_key = key,
       r_modifiers = \<lparr> m_ctrl = ctrl, m_shift = shift, m_alt = alt \<rparr>,
       r_combo = combo_str,
       r_vk = ''0x'' @ format_X 2 (cap_vk captured),
       r_vk_decimal = cap_vk captured,
       r_ascii = cap_ascii captured,
       r_unicode = cap_unicode captured,
       r_ascii_hex =
         (if truthy (cap_ascii captured)
          then Some (''0x'' @ format_X 2 (get_or (cap_ascii captured) 0)) else None),
       r_unicode_hex =
         (if truthy (cap_unicode captured)
          then Some (''0x'' @ format_X 4 (get_or (cap_unicode captured) 0)) else None) \<rparr>"

definition retry_result :: "string \<Rightarrow> bool \<Rightarrow> bool \<Rightarrow> bool \<Rightarrow> string \<Rightarrow> captured \<Rightarrow> capture_record" where
  "retry_result key ctrl shift alt combo_str captured =
     \<lparr> r_key = key,
       r_modifiers = \<lparr> m_ctrl = ctrl, m_shift = shift, m_alt = alt \<rparr>,
       r_combo = combo_str,
       r_vk = ''0x'' @ format_X 2 (cap_vk captured),
       r_vk_decimal = cap_vk captured,
       r_ascii = cap_ascii captured,
       r_unicode = cap_unicode captured,
       r_ascii_hex =
         (if truthy (cap_ascii captured)
          then Some (''0x'' @ format_X 2 (get_or (cap_ascii captured) 0)) else None),
       r_unicode_hex =
         (if truthy (cap_unicode captured)
          then Some (''0x'' @ format_X 4 (get_or (cap_unicode captured) 0)) else None) \<rparr>"

section \<open>Capture Session Driver, as far as its result goes\<close>

text \<open>
  \<open>capture_key_combo\<close> launches the helper, maps the key, simulates the key presses and
  parses the helper's output. What the launched helper reports for a combination
  (\<open>None\<close> for a timeout, an empty or an unparsable output, or an internal error) is the
  parameter \<open>helper\<close>; an unmapped key returns \<open>None\<close> before any simulation.
\<close>

type_synonym helper = "combo \<Rightarrow> captured option"

definition capture_key_combo :: "helper \<Rightarrow> string \<Rightarrow> bool \<Rightarrow> bool \<Rightarrow> bool \<Rightarrow> captured option" where
  "capture_key_combo helper key ctrl shift alt =
     (case map_key_to_pynput key of
        None \<Rightarrow> None
      | Some pynput_key \<Rightarrow> helper (key, ctrl, shift, alt))"

section \<open>The capture loops\<close>

text \<open>
  \<open>generate_combinations\<close> (generate_key_combos.py): the outer loop over \<open>US_KEYS\<close> and
  the inner loop over \<open>MODIFIERS\<close>; each successful capture appends one dictionary to
  \<open>results\<close>. The counters and the log lines do not reach the returned list and are
  left out.
\<close>

fun sweep_modifiers :: "helper \<Rightarrow> string \<Rightarrow> (bool \<times> bool \<times> bool) list \<Rightarrow> capture_record list \<Rightarrow> capture_record list" where
  "sweep_modifiers helper key [] results = results"
| "sweep_modifiers helper key ((ctrl, shift, alt) # rest) results =
     (let combo_str = sweep_combo_str key ctrl shift alt in
      case capture_key_combo helper key ctrl shift alt of
        Some captured \<Rightarrow>
          sweep_modifiers helper key rest
            (results @ [sweep_result key ctrl shift alt combo_str captured])
      | None \<Rightarrow> sweep_modifiers helper key rest results)"

fun sweep_keys :: "helper \<Rightarrow> string list \<Rightarrow> capture_record list \<Rightarrow> capture_record list" where
  "sweep_keys helper [] results = results"
| "sweep_keys helper (key # rest) results =
     sweep_keys helper rest (sweep_modifiers helper key MODIFIERS results)"

definition generate_combinations :: "helper \<Rightarrow> capture_record list" where
  "generate_combinations helper = sweep_keys helper US_KEYS []"

text \<open>\<open>retry_failed_combinations\<close> (retry_failed_combos.py): one loop over the list it is given.\<close>

fun retry_loop :: "helper \<Rightarrow> combo list \<Rightarrow> capture_record list \<Rightarrow> capture_record list" where
  "retry_loop helper [] results = results"
| "retry_loop helper ((key, ctrl, shift, alt) # rest) results =
     (let combo_str = format_combo_str key ctrl shift alt in
      case capture_key_combo helper key ctrl shift alt of
        Some captured \<Rightarrow>
          retry_loop helper rest (results @ [retry_result key ctrl shift alt combo_str captured])
      | None \<Rightarrow> retry_loop helper rest results)"

definition retry_failed_combinations :: "helper \<Rightarrow> combo list \<Rightarrow> capture_record list" where
  "retry_failed_combinations helper failed_combos = retry_loop helper failed_combos []"

section \<open>Result Store (retry_failed_combos.py)\<close>

text \<open>
  The file key_combinations.json: absent, present but not parsable (\<open>json.load\<close> raises,
  and both readers catch the exception), or a snapshot.
\<close>

datatype store_file = Missing | Unparsable | Stored snapshot

text \<open>
  The identity of a record: the tuple \<open>(key, ctrl, shift, alt)\<close> that
  \<open>load_existing_combinations\<close> and \<open>merge_results\<close> build from a record's "key" and
  "modifiers" entries. The entries of a store are records here, so the \<open>isinstance\<close>
  guards of \<open>merge_results\<close> hold for each of them, the defaults of its \<open>.get\<close> calls
  are never taken, and \<open>str\<close> and \<open>bool\<close> return the key and the modifiers as they are.
\<close>

definition combo_key :: "capture_record \<Rightarrow> combo" where
  "combo_key c = (r_key c, m_ctrl (r_modifiers c), m_shift (r_modifiers c), m_alt (r_modifiers c))"

definition load_existing_combinations :: "store_file \<Rightarrow> combo set" where
  "load_existing_combinations json_path =
     (case json_path of
        Missing \<Rightarrow> {}
      | Unparsable \<Rightarrow> {}
      | Stored data \<Rightarrow> fold (\<lambda>c cs. insert (combo_key c) cs) (combinations data) {})"

definition find_failed_combinations :: "combo set \<Rightarrow> combo list" where
  "find_failed_combinations existing =
     filter (\<lambda>c. c \<notin> existing) generate_all_combinations"

text \<open>\<open>merge_results\<close>, lines 150 to 159: the records of the existing file.\<close>

definition load_results :: "store_file \<Rightarrow> capture_record list" where
  "load_results existing_path =
     (case existing_path of
        Missing \<Rightarrow> []
      | Unparsable \<Rightarrow> []
      | Stored data \<Rightarrow> combinations data)"

text \<open>
  \<open>merge_results\<close>, lines 171 to 180: the loop over \<open>new_results\<close>, which appends a
  result whose key is not yet in \<open>existing_keys\<close> and adds its key to the set.
\<close>

fun add_new_results :: "capture_record list \<Rightarrow> capture_record list \<Rightarrow> combo set \<Rightarrow> capture_record list" where
  "add_new_results [] existing_results existing_keys = existing_results"
| "add_new_results (result # rest) existing_results existing_keys =
     (if combo_key result \<notin> existing_keys
      then add_new_results rest (existing_results @ [result]) (insert (combo_key result) existing_keys)
      else add_new_results rest existing_results existing_keys)"

text \<open>
  \<open>merge_results\<close>, lines 161 to 182, on the list of existing records: the set of
  existing keys, then the loop.
\<close>

definition merge_lists :: "capture_record list \<Rightarrow> capture_record list \<Rightarrow> capture_record list" where
  "merge_lists existing_results new_results =
     add_new_results new_results existing_results
       (fold (\<lambda>c ks. insert (combo_key c) ks) existing_results {})"

definition merge_results :: "store_file \<Rightarrow> capture_record list \<Rightarrow> capture_record list" where
  "merge_results existing_path new_results = merge_lists (load_results existing_path) new_results"

section \<open>The orchestrators\<close>

text \<open>
  What a run reads from outside: which paths exist, the store file, what \<open>input()\<close>
  yields (a line, or the exception it raises), what the helper reports for each
  combination, and the time stamp \<open>time.strftime\<close> returns.
\<close>

datatype console_input = Line string | Interrupt | Eof

datatype py_exception = KeyboardInterrupt | EOFError | TypeError

text \<open>
  A run ends with the status that \<open>main\<close> returns to \<open>sys.exit\<close> (or that it passes to
  \<open>sys.exit\<close> itself), or with an exception that nothing catches.
\<close>

datatype outcome = Exit int | Uncaught py_exception

text \<open>
  How the process ends. \<open>sys.exit(n)\<close> gives the status \<open>n\<close> (the scripts pass 0 or 1).
  An exception that nothing catches makes the interpreter print the traceback and end
  with the status 1, except \<open>KeyboardInterrupt\<close>, for which it ends the process as
  interrupted (by the signal, or with the console's control-C status), which is
  neither 0 nor 1.
\<close>

datatype process_end = Status int | Interrupted

fun exit_status :: "outcome \<Rightarrow> process_end" where
  "exit_status (Exit n) = Status n"
| "exit_status (Uncaught KeyboardInterrupt) = Interrupted"
| "exit_status (Uncaught EOFError) = Status 1"
| "exit_status (Uncaught TypeError) = Status 1"

record world =
  path_exists :: "string \<Rightarrow> bool"
  store :: store_file
  console :: console_input
  helper_reports :: helper
  clock :: string

text \<open>What a run leaves: how it ended and the snapshot it wrote to key_combinations.json, if any.\<close>

record run =
  outcome :: outcome
  written :: "snapshot option"

definition find_capture_keys_exe :: "(string \<Rightarrow> bool) \<Rightarrow> string option" where
  "find_capture_keys_exe exists_at =
     (if exists_at ''zig-out/bin/capture_keys.exe'' then Some ''zig-out/bin/capture_keys.exe''
      else if exists_at ''capture_keys.exe'' then Some ''capture_keys.exe''
      else if exists_at ''scripts/capture_keys.exe'' then Some ''scripts/capture_keys.exe''
      else None)"

text \<open>The sort key of the full sweep's \<open>results.sort\<close>: (ctrl, shift, alt, key).\<close>

definition sweep_sort_key :: "capture_record \<Rightarrow> bool \<times> bool \<times> bool \<times> string" where
  "sweep_sort_key x = (m_ctrl (r_modifiers x), m_shift (r_modifiers x), m_alt (r_modifiers x), r_key x)"

text \<open>The sort key of the retry tool's \<open>sorted\<close>: (key, ctrl, shift, alt).\<close>

definition retry_sort_key :: "capture_record \<Rightarrow> string \<times> bool \<times> bool \<times> bool" where
  "retry_sort_key x = (r_key x, m_ctrl (r_modifiers x), m_shift (r_modifiers x), m_alt (r_modifiers x))"

text \<open>
  \<open>main\<close> of generate_key_combos.py. Python's sort is stable, as \<open>sort_key\<close> is. The
  text file it writes after the JSON file formats \<open>ascii\<close> and \<open>unicode\<close> only when they
  are not \<open>None\<close>, and raises nothing.
\<close>

definition sweep_main :: "world \<Rightarrow> run" where
  "sweep_main w =
     (case find_capture_keys_exe (path_exists w) of
        None \<Rightarrow> \<lparr> outcome = Exit 1, written = None \<rparr>
      | Some exe_path \<Rightarrow>
          (case console w of
             Interrupt \<Rightarrow> \<lparr> outcome = Exit 1, written = None \<rparr>
           | Eof \<Rightarrow> \<lparr> outcome = Uncaught EOFError, written = None \<rparr>
           | Line l \<Rightarrow>
               (let results = generate_combinations (helper_reports w);
                    results = sort_key sweep_sort_key results
                in \<lparr> outcome = Exit 0,
                     written = Some \<lparr> generated_at = clock w,
                                     total_combinations = length results,
                                     combinations = results \<rparr> \<rparr>)))"

text \<open>
  A line of the retry tool's text file formats \<open>combo.get('ascii', 'N/A')\<close> with the
  format \<open>:4\<close> and \<open>combo.get('unicode', 'N/A')\<close> with \<open>:6\<close>; a record holds both entries,
  and formatting \<open>None\<close> with a width raises \<open>TypeError\<close>.
\<close>

definition txt_line_raises :: "capture_record \<Rightarrow> bool" where
  "txt_line_raises combo = (r_ascii combo = None \<or> r_unicode combo = None)"

text \<open>\<open>main\<close> of retry_failed_combos.py.\<close>

definition retry_main :: "world \<Rightarrow> run" where
  "retry_main w =
     (case find_capture_keys_exe (path_exists w) of
        None \<Rightarrow> \<lparr> outcome = Exit 1, written = None \<rparr>
      | Some exe_path \<Rightarrow>
          (let existing_combos = load_existing_combinations (store w);
               failed_combos = find_failed_combinations existing_combos
           in if failed_combos = [] then \<lparr> outcome = Exit 0, written = None \<rparr>
              else
                (case console w of
                   Interrupt \<Rightarrow> \<lparr> outcome = Uncaught KeyboardInterrupt, written = None \<rparr>
                 | Eof \<Rightarrow> \<lparr> outcome = Uncaught EOFError, written = None \<rparr>
                 | Line l \<Rightarrow>
                     (let response = lower (strip l)
                      in if response \<noteq> ''y'' then \<lparr> outcome = Exit 0, written = None \<rparr>
                         else
                           (let new_results =
                                  retry_failed_combinations (helper_reports w) failed_combos
                            in if new_results = [] then \<lparr> outcome = Exit 0, written = None \<rparr>
                               else
                                 (let all_results = merge_results (store w) new_results;
                                      output_data =
                                        \<lparr> generated_at = clock w,
                                          total_combinations = length all_results,
                                          combinations = sort_key retry_sort_key all_results \<rparr>
                                  in \<lparr> outcome =
                                         (if list_ex txt_line_raises (combinations output_data)
                                          then Uncaught TypeError else Exit 0),
                                       written = Some output_data \<rparr>))))))"

section \<open>Auxiliary definitions for the proofs\<close>

text \<open>
  What one iteration of each capture loop appends for a combination, if anything; the
  loops are then the successive results of these steps (lemmas \<open>generate_combinations_eq\<close>
  and \<open>retry_failed_combinations_eq\<close> below).
\<close>

definition sweep_capture :: "helper \<Rightarrow> combo \<Rightarrow> capture_record option" where
  "sweep_capture helper = (\<lambda>(key, ctrl, shift, alt).
     map_option (sweep_result key ctrl shift alt (sweep_combo_str key ctrl shift alt))
       (capture_key_combo helper key ctrl shift alt))"

definition retry_capture :: "helper \<Rightarrow> combo \<Rightarrow> capture_record option" where
  "retry_capture helper = (\<lambda>(key, ctrl, shift, alt).
     map_option (retry_result key ctrl shift alt (format_combo_str key ctrl shift alt))
       (capture_key_combo helper key ctrl shift alt))"

section \<open>Example inputs\<close>

text \<open>A helper that reports a capture for Ctrl+A only, and times out for everything else.\<close>

definition example_helper :: helper where
  "example_helper c =
     (if c = (''a'', True, False, False)
      then Some \<lparr> cap_vk = 65, cap_ascii = Some 1, cap_unicode = Some 1 \<rparr> else None)"

text \<open>A helper that reports the arrow key Up only, with the ASCII value 0 and no Unicode value.\<close>

definition example_helper_up :: helper where
  "example_helper_up c =
     (if c = (''up'', False, False, False)
      then Some \<lparr> cap_vk = 38, cap_ascii = Some 0, cap_unicode = None \<rparr> else None)"

text \<open>A helper that reports Ctrl+A and the plain key B, and nothing else.\<close>

definition example_helper_two :: helper where
  "example_helper_two c =
     (if c = (''a'', True, False, False)
      then Some \<lparr> cap_vk = 65, cap_ascii = Some 1, cap_unicode = Some 1 \<rparr>
      else if c = (''b'', False, False, False)
      then Some \<lparr> cap_vk = 66, cap_ascii = Some 98, cap_unicode = Some 98 \<rparr>
      else None)"

text \<open>Two captures of the plain key B with different values, and the capture of Ctrl+A.\<close>

definition example_b :: capture_record where
  "example_b = sweep_result ''b'' False False False ''B''
     \<lparr> cap_vk = 66, cap_ascii = Some 98, cap_unicode = Some 98 \<rparr>"

definition example_b_again :: capture_record where
  "example_b_again = retry_result ''b'' False False False ''B''
     \<lparr> cap_vk = 66, cap_ascii = Some 0, cap_unicode = Some 0 \<rparr>"

definition example_ctrl_a :: capture_record where
  "example_ctrl_a = retry_result ''a'' True False False ''Ctrl+A''
     \<lparr> cap_vk = 65, cap_ascii = Some 1, cap_unicode = Some 1 \<rparr>"

definition example_store :: "capture_record list \<Rightarrow> store_file" where
  "example_store records =
     Stored \<lparr> generated_at = ''2024-01-01 00:00:00'',
              total_combinations = length records,
              combinations = records \<rparr>"

text \<open>
  A run in which the helper binary is in the current directory, the store holds the
  plain key B, and the user answers the prompt with the given line.
\<close>

definition example_world :: "string \<Rightarrow> world" where
  "example_world answer =
     \<lparr> path_exists = (\<lambda>p. p = ''capture_keys.exe''),
       store = example_store [example_b],
       console = Line answer,
       helper_reports = example_helper,
       clock = ''2024-06-01 12:00:00'' \<rparr>"

text \<open>A full sweep with the helper binary in place, the prompt confirmed, and that helper.\<close>

definition example_sweep_world :: world where
  "example_sweep_world = (example_world [])\<lparr> helper_reports := example_helper_two \<rparr>"

section \<open>Properties of the catalogs and of the generator\<close>

lemma length_US_KEYS: "length US_KEYS = 74"
  by (simp add: US_KEYS_def)

lemma length_MODIFIERS: "length MODIFIERS = 8"
  by (simp add: MODIFIERS_def)

lemma distinct_US_KEYS: "distinct US_KEYS"
  by (simp add: US_KEYS_def)

lemma distinct_MODIFIERS: "distinct MODIFIERS"
  by (simp add: MODIFIERS_def)

lemma MODIFIERS_total: "(c, s, a) \<in> set MODIFIERS"
  by (cases c; cases s; cases a) (simp_all add: MODIFIERS_def)

lemma count_list_concat_map:
  "count_list (concat (map f xs)) y = sum_list (map (\<lambda>x. count_list (f x) y) xs)"
  by (induction xs) simp_all

lemma count_list_distinct: "distinct xs \<Longrightarrow> count_list xs x = (if x \<in> set xs then 1 else 0)"
  by (induction xs) auto

lemma count_row:
  "count_list (map (\<lambda>(ctrl, shift, alt). (key, ctrl, shift, alt)) MODIFIERS) (k, c, s, a)
     = (if key = k then 1 else 0)"
  by (cases c; cases s; cases a) (simp_all add: MODIFIERS_def)

lemma sum_list_indicator:
  "distinct xs \<Longrightarrow> sum_list (map (\<lambda>x. if x = k then (1::nat) else 0) xs) = (if k \<in> set xs then 1 else 0)"
  by (induction xs) auto

lemma count_generate_all:
  "count_list generate_all_combinations (k, c, s, a) = (if k \<in> set US_KEYS then 1 else 0)"
  unfolding generate_all_combinations_def count_list_concat_map count_row
  by (rule sum_list_indicator [OF distinct_US_KEYS])

text \<open>
  C6: every pair of a cataloged key and a modifier state occurs exactly once in the
  generator's output (every triple of booleans is one of the 8 modifier states of the
  catalog), and the output has 74 * 8 = 592 combinations.
\<close>

theorem generator_exactly_once:
  "(\<forall>k \<in> set US_KEYS. \<forall>m \<in> set MODIFIERS.
      count_list generate_all_combinations (k, m) = 1)
   \<and> length US_KEYS = 74
   \<and> length MODIFIERS = 8
   \<and> length generate_all_combinations = length US_KEYS * 8
   \<and> length generate_all_combinations = 592"
proof -
  have len: "length generate_all_combinations = 592"
    by (simp add: generate_all_combinations_def US_KEYS_def MODIFIERS_def)
  have once: "\<forall>k \<in> set US_KEYS. \<forall>m \<in> set MODIFIERS.
      count_list generate_all_combinations (k, m) = 1"
  proof (intro ballI)
    fix k m assume k: "k \<in> set US_KEYS" and "m \<in> set MODIFIERS"
    obtain c s a where m: "m = (c, s, a)" by (cases m) auto
    show "count_list generate_all_combinations (k, m) = 1"
      using k by (simp add: m count_generate_all)
  qed
  show ?thesis using len once by (simp add: length_US_KEYS length_MODIFIERS)
qed

theorem generator_exactly_once_witness:
  "''f5'' \<in> set US_KEYS \<and> (True, False, True) \<in> set MODIFIERS
   \<and> count_list generate_all_combinations (''f5'', True, False, True) = 1"
proof -
  have k: "''f5'' \<in> set US_KEYS" by (simp add: US_KEYS_def)
  have m: "(True, False, True) \<in> set MODIFIERS" by (simp add: MODIFIERS_def)
  from generator_exactly_once k m
  have "count_list generate_all_combinations (''f5'', (True, False, True)) = 1" by blast
  with k m show ?thesis by simp
qed

section \<open>Properties of the Key Mapper\<close>

lemma special_names_cataloged: "fst ` set special_map \<subseteq> set US_KEYS"
  by (simp add: special_map_def US_KEYS_def)

lemma symbol_names_cataloged: "fst ` set symbol_map \<subseteq> set US_KEYS"
  by (simp add: symbol_map_def US_KEYS_def)

lemma outside_not_special: "k \<notin> set US_KEYS \<Longrightarrow> map_of special_map k = None"
  using special_names_cataloged by (auto simp: map_of_eq_None_iff)

lemma outside_not_symbol: "k \<notin> set US_KEYS \<Longrightarrow> map_of symbol_map k = None"
  using symbol_names_cataloged by (auto simp: map_of_eq_None_iff)

lemma mapper_outside_catalog:
  "k \<notin> set US_KEYS \<Longrightarrow>
     (map_key_to_pynput k = None) = (\<not> isalnum k \<and> function_key k = None)"
  by (auto simp: map_key_to_pynput_def outside_not_special outside_not_symbol
           split: option.splits)

lemma mapper_on_catalog:
  "map map_key_to_pynput US_KEYS =
     map (\<lambda>c. Some (KeyCode [c])) ''abcdefghijklmnopqrstuvwxyz0123456789''
     @ map (\<lambda>c. Some (KeyCode [c])) [CHR 0x60, CHR ''-'', CHR ''='', CHR ''['', CHR '']'',
          CHR 0x5C, CHR '';'', CHR 0x27, CHR '','', CHR ''.'', CHR ''/'']
     @ map (\<lambda>k. Some (Key k)) [Key_space, Key_enter, Key_tab, Key_backspace, Key_esc,
          Key_up, Key_down, Key_left, Key_right]
     @ map (\<lambda>n. Some (Key (Key_f n))) [1, 2, 3, 4, 5, 6, 7, 8, 9, 10, 11, 12]
     @ map (\<lambda>k. Some (Key k)) [Key_home, Key_end, Key_page_up, Key_page_down, Key_insert,
          Key_delete]"
  by code_simp

lemma mapper_total_on_catalog: "k \<in> set US_KEYS \<Longrightarrow> map_key_to_pynput k \<noteq> None"
proof -
  have "None \<notin> set (map map_key_to_pynput US_KEYS)"
    unfolding mapper_on_catalog by auto
  then show "k \<in> set US_KEYS \<Longrightarrow> map_key_to_pynput k \<noteq> None"
    by (metis image_eqI set_map)
qed

text \<open>
  C5, as the code has it: every key of the catalog maps to a backend representation
  (the table above; a HOL function gives the same value on every call, and the mapper
  reads no state), never to \<open>None\<close>. A name of ASCII characters outside the catalog maps
  to \<open>None\<close> exactly when it is not alphanumeric and is not the letter f followed by an
  integer literal from 1 to 12: the mapper accepts every alphanumeric string and every
  such literal, cataloged or not.
\<close>

theorem key_mapper_catalog_and_outside:
  "(\<forall>k \<in> set US_KEYS. map_key_to_pynput k \<noteq> None)
   \<and> (\<forall>k. ascii_only k \<and> k \<notin> set US_KEYS \<longrightarrow>
          (map_key_to_pynput k = None) = (\<not> isalnum k \<and> function_key k = None))"
  using mapper_total_on_catalog mapper_outside_catalog by blast

theorem key_mapper_catalog_and_outside_witness:
  "''page up'' \<in> set US_KEYS \<and> map_key_to_pynput ''page up'' \<noteq> None
   \<and> ascii_only ''ctrl+c''
   \<and> ''ctrl+c'' \<notin> set US_KEYS \<and> \<not> isalnum ''ctrl+c'' \<and> function_key ''ctrl+c'' = None
   \<and> map_key_to_pynput ''ctrl+c'' = None"
proof -
  have a: "''page up'' \<in> set US_KEYS" by (simp add: US_KEYS_def)
  have b: "''ctrl+c'' \<notin> set US_KEYS" by (simp add: US_KEYS_def)
  have c: "\<not> isalnum ''ctrl+c''" by code_simp
  have d: "function_key ''ctrl+c'' = None" by code_simp
  have e: "ascii_only ''ctrl+c''" by code_simp
  from key_mapper_catalog_and_outside a b c d e show ?thesis by blast
qed

text \<open>
  C5 as stated fails: "A" is not in the catalog (the catalog has the lower-case
  letters) and the mapper returns \<open>KeyCode.from_char('a')\<close> for it; "f+1" is not in the
  catalog and the mapper returns \<open>Key.f1\<close>, since \<open>int('+1')\<close> is 1.
\<close>

theorem key_mapper_outside_counterexample:
  "ascii_only ''A'' \<and> ''A'' \<notin> set US_KEYS \<and> map_key_to_pynput ''A'' = Some (KeyCode ''a'')
   \<and> ascii_only ''f+1'' \<and> ''f+1'' \<notin> set US_KEYS
   \<and> map_key_to_pynput ''f+1'' = Some (Key (Key_f 1))"
proof -
  have "''A'' \<notin> set US_KEYS" and "''f+1'' \<notin> set US_KEYS"
    by (simp_all add: US_KEYS_def)
  moreover have "ascii_only ''A''" and "ascii_only ''f+1''" by code_simp+
  moreover have "map_key_to_pynput ''A'' = Some (KeyCode ''a'')" by code_simp
  moreover have "map_key_to_pynput ''f+1'' = Some (Key (Key_f 1))" by code_simp
  ultimately show ?thesis by simp
qed

section \<open>The two label implementations agree\<close>

text \<open>
  C10: the inline formatting of the full sweep and the retry tool's
  \<open>format_combo_str\<close> return the same string for every key and every modifier state,
  and it is the string the specification describes.
\<close>

theorem labels_agree:
  "sweep_combo_str key ctrl shift alt = format_combo_str key ctrl shift alt
   \<and> format_combo_str key ctrl shift alt = label_by_words key ctrl shift alt"
  by (simp add: sweep_combo_str_def format_combo_str_def label_by_words_def)

section \<open>Properties of merge\<close>

lemma fold_insert_keys:
  "fold (\<lambda>c ks. insert (combo_key c) ks) xs S = combo_key ` set xs \<union> S"
  by (induction xs arbitrary: S) auto

lemma add_new_results_append:
  "add_new_results new res ks = res @ add_new_results new [] ks"
proof (induction new arbitrary: res ks)
  case Nil
  show ?case by simp
next
  case (Cons r rest)
  show ?case
  proof (cases "combo_key r \<in> ks")
    case True
    then show ?thesis using Cons.IH [of res ks] by simp
  next
    case False
    then show ?thesis
      using Cons.IH [of "res @ [r]" "insert (combo_key r) ks"]
            Cons.IH [of "[r]" "insert (combo_key r) ks"]
      by simp
  qed
qed

lemma add_new_results_Cons:
  "add_new_results (r # rest) [] ks =
     (if combo_key r \<in> ks then add_new_results rest [] ks
      else r # add_new_results rest [] (insert (combo_key r) ks))"
  using add_new_results_append [of rest "[r]" "insert (combo_key r) ks"] by simp

lemma keys_add_new_results:
  "combo_key ` set (add_new_results new [] ks) = combo_key ` set new - ks"
proof (induction new arbitrary: ks)
  case Nil
  show ?case by simp
next
  case (Cons r rest)
  show ?case
    unfolding add_new_results_Cons using Cons.IH by auto
qed

lemma add_new_results_known:
  "combo_key ` set new \<subseteq> ks \<Longrightarrow> add_new_results new res ks = res"
  by (induction new arbitrary: res) auto

lemma distinct_add_new_results:
  "distinct (map combo_key (add_new_results new [] ks))"
proof (induction new arbitrary: ks)
  case Nil
  show ?case by simp
next
  case (Cons r rest)
  have "combo_key r \<notin> combo_key ` set (add_new_results rest [] (insert (combo_key r) ks))"
    unfolding keys_add_new_results by simp
  then show ?case
    unfolding add_new_results_Cons using Cons.IH by simp
qed

lemma filter_add_new_results:
  "filter (\<lambda>r. combo_key r = k) (add_new_results new [] ks) =
     (if k \<in> ks then [] else take 1 (filter (\<lambda>r. combo_key r = k) new))"
proof (induction new arbitrary: ks)
  case Nil
  show ?case by simp
next
  case (Cons r rest)
  show ?case
    unfolding add_new_results_Cons using Cons.IH by auto
qed

lemma merge_lists_eq:
  "merge_lists existing new = existing @ add_new_results new [] (combo_key ` set existing)"
  unfolding merge_lists_def fold_insert_keys
  using add_new_results_append [of new existing] by simp

lemma keys_merge_lists:
  "combo_key ` set (merge_lists existing new) = combo_key ` set existing \<union> combo_key ` set new"
  unfolding merge_lists_eq by (auto simp: keys_add_new_results image_Un)

lemma merge_lists_idem: "merge_lists (merge_lists A B) B = merge_lists A B"
proof -
  have "combo_key ` set B \<subseteq> combo_key ` set (merge_lists A B)"
    unfolding keys_merge_lists by blast
  then have "add_new_results B [] (combo_key ` set (merge_lists A B)) = []"
    by (rule add_new_results_known)
  then show ?thesis
    using merge_lists_eq [of "merge_lists A B" B] by simp
qed

lemma filter_merge_lists:
  "filter (\<lambda>r. combo_key r = k) (merge_lists existing new) =
     (if k \<in> combo_key ` set existing then filter (\<lambda>r. combo_key r = k) existing
      else take 1 (filter (\<lambda>r. combo_key r = k) new))"
proof -
  have "k \<notin> combo_key ` set existing \<Longrightarrow> filter (\<lambda>r. combo_key r = k) existing = []"
    by (auto simp: filter_empty_conv)
  then show ?thesis
    unfolding merge_lists_eq by (simp add: filter_add_new_results)
qed

lemma distinct_merge_lists:
  assumes "distinct (map combo_key existing)"
  shows "distinct (map combo_key (merge_lists existing new))"
  unfolding merge_lists_eq
  using assms distinct_add_new_results [of new "combo_key ` set existing"]
        keys_add_new_results [of new "combo_key ` set existing"]
  by (auto simp: image_iff)


section \<open>Properties of the capture loops\<close>

lemma map_filter_append: "List.map_filter f (xs @ ys) = List.map_filter f xs @ List.map_filter f ys"
  by (simp add: List.map_filter_def)

lemma map_filter_concat: "List.map_filter f (concat xss) = concat (map (List.map_filter f) xss)"
  by (induction xss) (simp_all add: map_filter_append List.map_filter_simps)

lemma map_filter_single:
  "distinct cs \<Longrightarrow> x \<in> set cs \<Longrightarrow> f x = Some y \<Longrightarrow> (\<And>c. c \<noteq> x \<Longrightarrow> f c = None)
     \<Longrightarrow> List.map_filter f cs = [y]"
proof (induction cs)
  case Nil
  then show ?case by simp
next
  case (Cons c cs)
  show ?case
  proof (cases "c = x")
    case True
    then have "x \<notin> set cs" using Cons.prems(1) by simp
    then have "\<forall>c' \<in> set cs. f c' = None" using Cons.prems(4) by metis
    then have "List.map_filter f cs = []"
      by (simp add: List.map_filter_def filter_empty_conv)
    then show ?thesis using True Cons.prems(3) by (simp add: List.map_filter_simps)
  next
    case False
    then have "f c = None" using Cons.prems(4) by simp
    moreover have "List.map_filter f cs = [y]"
      using Cons.IH Cons.prems False by auto
    ultimately show ?thesis by (simp add: List.map_filter_simps)
  qed
qed

lemma sweep_modifiers_eq:
  "sweep_modifiers h key ms res =
     res @ List.map_filter (sweep_capture h) (map (\<lambda>(ctrl, shift, alt). (key, ctrl, shift, alt)) ms)"
  by (induction h key ms res rule: sweep_modifiers.induct)
     (simp_all add: List.map_filter_simps sweep_capture_def split: option.splits)

lemma sweep_keys_eq:
  "sweep_keys h ks res =
     res @ List.map_filter (sweep_capture h)
             (concat (map (\<lambda>key. map (\<lambda>(ctrl, shift, alt). (key, ctrl, shift, alt)) MODIFIERS) ks))"
  by (induction ks arbitrary: res)
     (simp_all add: List.map_filter_simps sweep_modifiers_eq map_filter_append)

lemma generate_combinations_eq:
  "generate_combinations h = List.map_filter (sweep_capture h) generate_all_combinations"
  by (simp add: generate_combinations_def generate_all_combinations_def sweep_keys_eq)

lemma retry_loop_eq:
  "retry_loop h cs res = res @ List.map_filter (retry_capture h) cs"
  by (induction h cs res rule: retry_loop.induct)
     (simp_all add: List.map_filter_simps retry_capture_def split: option.splits)

lemma retry_failed_combinations_eq:
  "retry_failed_combinations h cs = List.map_filter (retry_capture h) cs"
  by (simp add: retry_failed_combinations_def retry_loop_eq)

lemma combo_key_retry_result [simp]:
  "combo_key (retry_result key ctrl shift alt l cap) = (key, ctrl, shift, alt)"
  by (simp add: combo_key_def retry_result_def)

lemma combo_key_sweep_result [simp]:
  "combo_key (sweep_result key ctrl shift alt l cap) = (key, ctrl, shift, alt)"
  by (simp add: combo_key_def sweep_result_def)

lemma retry_capture_key: "retry_capture h c = Some r \<Longrightarrow> combo_key r = c"
  by (cases c) (auto simp: retry_capture_def)

lemma sweep_capture_key: "sweep_capture h c = Some r \<Longrightarrow> combo_key r = c"
  by (cases c) (auto simp: sweep_capture_def)

lemma keys_map_filter:
  "(\<And>c r. f c = Some r \<Longrightarrow> combo_key r = c)
     \<Longrightarrow> map combo_key (List.map_filter f cs) = filter (\<lambda>c. f c \<noteq> None) cs"
  by (induction cs) (auto simp: List.map_filter_simps split: option.splits)

lemma keys_retry_failed_combinations:
  "map combo_key (retry_failed_combinations h cs) = filter (\<lambda>c. retry_capture h c \<noteq> None) cs"
  unfolding retry_failed_combinations_eq by (rule keys_map_filter) (rule retry_capture_key)

lemma keys_generate_combinations:
  "map combo_key (generate_combinations h) =
     filter (\<lambda>c. sweep_capture h c \<noteq> None) generate_all_combinations"
  unfolding generate_combinations_eq by (rule keys_map_filter) (rule sweep_capture_key)

section \<open>The example inputs, evaluated\<close>

lemma count_le_1_distinct: "(\<And>x. count_list xs x \<le> 1) \<Longrightarrow> distinct xs"
proof (induction xs)
  case Nil
  show ?case by simp
next
  case (Cons y ys)
  have "count_list (y # ys) y \<le> 1" by (rule Cons.prems)
  then have "count_list ys y = 0" by simp
  then have "y \<notin> set ys" by (simp add: count_list_0_iff)
  moreover have "distinct ys"
  proof (rule Cons.IH)
    fix x
    have "count_list ys x \<le> count_list (y # ys) x" by simp
    also have "\<dots> \<le> 1" by (rule Cons.prems)
    finally show "count_list ys x \<le> 1" .
  qed
  ultimately show ?case by simp
qed

lemma distinct_generate_all: "distinct generate_all_combinations"
proof (rule count_le_1_distinct)
  fix x :: combo
  obtain k c s a where "x = (k, c, s, a)" by (cases x) auto
  then show "count_list generate_all_combinations x \<le> 1"
    by (simp add: count_generate_all)
qed

lemma set_generate_all: "((k, c, s, a) \<in> set generate_all_combinations) = (k \<in> set US_KEYS)"
proof -
  have "((k, c, s, a) \<in> set generate_all_combinations)
          = (count_list generate_all_combinations (k, c, s, a) \<noteq> 0)"
    by (simp add: count_list_0_iff)
  then show ?thesis by (simp add: count_generate_all)
qed

lemma load_existing_combinations_eq:
  "load_existing_combinations f = combo_key ` set (load_results f)"
  by (cases f) (simp_all add: load_existing_combinations_def load_results_def fold_insert_keys)

lemma example_keys:
  "combo_key example_b = (''b'', False, False, False)"
  "combo_key example_b_again = (''b'', False, False, False)"
  "combo_key example_ctrl_a = (''a'', True, False, False)"
  by (simp_all add: example_b_def example_b_again_def example_ctrl_a_def)

lemma example_exe: "find_capture_keys_exe (path_exists (example_world l)) = Some ''capture_keys.exe''"
  by (simp add: find_capture_keys_exe_def example_world_def)

lemma example_failed:
  "find_failed_combinations (load_existing_combinations (store (example_world l)))
     = filter (\<lambda>c. c \<noteq> (''b'', False, False, False)) generate_all_combinations"
  by (simp add: find_failed_combinations_def load_existing_combinations_eq example_world_def
        example_store_def load_results_def example_keys)

lemma example_ctrl_a_failed:
  "(''a'', True, False, False) \<in>
     set (filter (\<lambda>c. c \<noteq> (''b'', False, False, False)) generate_all_combinations)"
  by (simp add: set_generate_all US_KEYS_def)

lemma example_capture:
  "retry_capture example_helper (''a'', True, False, False) = Some example_ctrl_a"
proof -
  have "map_key_to_pynput ''a'' = Some (KeyCode ''a'')" by code_simp
  moreover have "format_combo_str ''a'' True False False = ''Ctrl+A''" by code_simp
  ultimately show ?thesis
    by (simp add: retry_capture_def capture_key_combo_def example_helper_def example_ctrl_a_def)
qed

lemma example_no_capture:
  "c \<noteq> (''a'', True, False, False) \<Longrightarrow> retry_capture example_helper c = None"
  by (cases c) (auto simp: retry_capture_def capture_key_combo_def example_helper_def
       split: option.splits)

lemma example_new_results:
  "retry_failed_combinations example_helper
     (filter (\<lambda>c. c \<noteq> (''b'', False, False, False)) generate_all_combinations) = [example_ctrl_a]"
  unfolding retry_failed_combinations_eq
proof (rule map_filter_single [where x = "(''a'', True, False, False)"])
  show "distinct (filter (\<lambda>c. c \<noteq> (''b'', False, False, False)) generate_all_combinations)"
    by (simp add: distinct_generate_all)
qed (fact example_ctrl_a_failed, fact example_capture, rule example_no_capture)

lemma example_merge:
  "merge_results (example_store [example_b]) [example_ctrl_a] = [example_b, example_ctrl_a]"
  by (simp add: merge_results_def merge_lists_def load_results_def example_store_def example_keys)

lemma example_sort:
  "sort_key retry_sort_key [example_b, example_ctrl_a] = [example_ctrl_a, example_b]"
  by (simp add: retry_sort_key_def example_b_def example_ctrl_a_def sweep_result_def
        retry_result_def)

lemma example_order: "\<not> retry_sort_key example_b \<le> retry_sort_key example_ctrl_a"
  by (simp add: retry_sort_key_def example_b_def example_ctrl_a_def sweep_result_def
        retry_result_def)

lemma example_txt:
  "\<not> list_ex txt_line_raises [example_ctrl_a, example_b]"
  by (simp add: txt_line_raises_def example_b_def example_ctrl_a_def sweep_result_def
        retry_result_def)

lemma example_answer_yes: "lower (strip '' Y '') = ''y''"
  by code_simp

lemma example_answer_no: "lower (strip ''n'') \<noteq> ''y''"
  by code_simp

lemma example_retry_run:
  "retry_main (example_world '' Y '') =
     \<lparr> outcome = Exit 0,
       written = Some \<lparr> generated_at = ''2024-06-01 12:00:00'',
                        total_combinations = 2,
                        combinations = [example_ctrl_a, example_b] \<rparr> \<rparr>"
proof -
  let ?w = "example_world '' Y ''"
  have failed: "find_failed_combinations (load_existing_combinations (store ?w)) \<noteq> []"
    unfolding example_failed using example_ctrl_a_failed by fastforce
  have c: "console ?w = Line '' Y ''" and h: "helper_reports ?w = example_helper"
    and s: "store ?w = example_store [example_b]" and t: "clock ?w = ''2024-06-01 12:00:00''"
    by (simp_all add: example_world_def)
  have new: "retry_failed_combinations (helper_reports ?w)
      (find_failed_combinations (load_existing_combinations (store ?w))) = [example_ctrl_a]"
    unfolding example_failed h by (rule example_new_results)
  show ?thesis
    unfolding retry_main_def Let_def example_exe new
    using failed
    using example_txt
    by (simp add: c s t example_answer_yes example_merge example_order)
qed

lemma example_retry_declined:
  "retry_main (example_world ''n'') = \<lparr> outcome = Exit 0, written = None \<rparr>"
proof -
  let ?w = "example_world ''n''"
  have failed: "find_failed_combinations (load_existing_combinations (store ?w)) \<noteq> []"
    unfolding example_failed using example_ctrl_a_failed by fastforce
  have c: "console ?w = Line ''n''" by (simp add: example_world_def)
  show ?thesis
    unfolding retry_main_def Let_def example_exe
    using failed example_answer_no by (simp add: c)
qed

section \<open>Result Store merge\<close>

lemma example_records_differ: "example_b_again \<noteq> example_b"
  by (simp add: example_b_def example_b_again_def sweep_result_def retry_result_def)

lemma length_merge_lists: "length existing \<le> length (merge_lists existing new)"
  by (simp add: merge_lists_eq)

text \<open>
  C1, as the code has it: the keys of the merged list are the union of the keys of the
  two lists. For a key that the existing list holds, the merged list holds exactly the
  existing records of that key, in their order, and no new one (the first write wins);
  for any other key it holds the first record of that key in the list of new records,
  if there is one.
\<close>

theorem merge_union_existing_wins:
  "combo_key ` set (merge_results f new) = combo_key ` set (load_results f) \<union> combo_key ` set new
   \<and> filter (\<lambda>r. combo_key r = k) (merge_results f new) =
       (if k \<in> combo_key ` set (load_results f)
        then filter (\<lambda>r. combo_key r = k) (load_results f)
        else take 1 (filter (\<lambda>r. combo_key r = k) new))"
  by (simp add: merge_results_def keys_merge_lists filter_merge_lists)

text \<open>
  C1 as stated fails: with a record for the plain key B in the store and another record
  for the same combination among the new results, the merged list is the stored record
  alone; the new record is not in the output.
\<close>

theorem merge_new_wins_counterexample:
  "combo_key example_b_again = combo_key example_b
   \<and> example_b_again \<noteq> example_b
   \<and> merge_results (example_store [example_b]) [example_b_again] = [example_b]
   \<and> example_b_again \<notin> set (merge_results (example_store [example_b]) [example_b_again])"
proof -
  have "merge_results (example_store [example_b]) [example_b_again] = [example_b]"
    by (simp add: merge_results_def merge_lists_def load_results_def example_store_def
          example_keys)
  then show ?thesis
    using example_records_differ by (simp add: example_keys)
qed

text \<open>
  C7: merging the same new records a second time into the result of a merge changes
  nothing, on the lists and through the store file that holds the first result.
\<close>

theorem merge_idempotent:
  "merge_lists (merge_lists A B) B = merge_lists A B
   \<and> merge_results (Stored (d\<lparr>combinations := merge_results f B\<rparr>)) B = merge_results f B"
  by (simp add: merge_results_def load_results_def merge_lists_idem)

text \<open>
  C8, as the code has it: when no two records of the existing list have the same
  Combination key, no two records of the merged list have, whatever the list of new
  records holds (duplicates among the new records, and new records whose key is in the
  existing list, are dropped).
\<close>

theorem merge_keeps_keys_unique:
  "distinct (map combo_key (load_results f)) \<Longrightarrow> distinct (map combo_key (merge_results f new))"
  unfolding merge_results_def by (rule distinct_merge_lists)

theorem merge_keeps_keys_unique_witness:
  "distinct (map combo_key (load_results (example_store [example_b])))
   \<and> \<not> distinct (map combo_key [example_ctrl_a, example_b_again, example_ctrl_a])
   \<and> distinct (map combo_key
         (merge_results (example_store [example_b]) [example_ctrl_a, example_b_again, example_ctrl_a]))"
proof -
  have a: "distinct (map combo_key (load_results (example_store [example_b])))"
    by (simp add: load_results_def example_store_def)
  have b: "\<not> distinct (map combo_key [example_ctrl_a, example_b_again, example_ctrl_a])"
    by simp
  from a b merge_keeps_keys_unique [OF a] show ?thesis by blast
qed

text \<open>
  C8 as stated fails: the records of the existing list are kept as they are, so two
  stored records of the same combination are both in the merged list.
\<close>

theorem merge_duplicates_counterexample:
  "combo_key example_b = combo_key example_b_again
   \<and> merge_results (example_store [example_b, example_b_again]) [example_ctrl_a]
       = [example_b, example_b_again, example_ctrl_a]
   \<and> \<not> distinct (map combo_key
          (merge_results (example_store [example_b, example_b_again]) [example_ctrl_a]))"
  by (simp add: merge_results_def merge_lists_def load_results_def example_store_def
        example_keys)

section \<open>The orchestrators\<close>

lemma single_report_sweep:
  assumes "h (k, c, s, a) = Some cap"
    and "\<And>x. x \<noteq> (k, c, s, a) \<Longrightarrow> h x = None"
    and "k \<in> set US_KEYS"
  shows "generate_combinations h = [sweep_result k c s a (sweep_combo_str k c s a) cap]"
  unfolding generate_combinations_eq
proof (rule map_filter_single [where x = "(k, c, s, a)"])
  show "distinct generate_all_combinations" by (rule distinct_generate_all)
  show "(k, c, s, a) \<in> set generate_all_combinations"
    using assms(3) by (simp add: set_generate_all)
  show "sweep_capture h (k, c, s, a) = Some (sweep_result k c s a (sweep_combo_str k c s a) cap)"
    using assms(1) mapper_total_on_catalog [OF assms(3)]
    by (auto simp: sweep_capture_def capture_key_combo_def split: option.splits)
  show "sweep_capture h x = None" if "x \<noteq> (k, c, s, a)" for x
    using assms(2) [OF that]
    by (cases x) (auto simp: sweep_capture_def capture_key_combo_def split: option.splits)
qed

lemma written_sweep_main:
  "written (sweep_main w) = Some s \<Longrightarrow>
     s = \<lparr> generated_at = clock w,
           total_combinations = length (generate_combinations (helper_reports w)),
           combinations = sort_key sweep_sort_key (generate_combinations (helper_reports w)) \<rparr>"
  by (auto simp: sweep_main_def Let_def split: option.splits console_input.splits)

lemma written_retry_main:
  "written (retry_main w) = Some s \<Longrightarrow>
     s = \<lparr> generated_at = clock w,
           total_combinations =
             length (merge_results (store w)
               (retry_failed_combinations (helper_reports w)
                  (find_failed_combinations (load_existing_combinations (store w))))),
           combinations =
             sort_key retry_sort_key
               (merge_results (store w)
                  (retry_failed_combinations (helper_reports w)
                     (find_failed_combinations (load_existing_combinations (store w))))) \<rparr>"
  by (auto simp: retry_main_def Let_def split: option.splits console_input.splits if_splits)

lemma outcome_sweep_main:
  "outcome (sweep_main w) =
     (case find_capture_keys_exe (path_exists w) of
        None \<Rightarrow> Exit 1
      | Some p \<Rightarrow> (case console w of Interrupt \<Rightarrow> Exit 1 | Eof \<Rightarrow> Uncaught EOFError | Line l \<Rightarrow> Exit 0))"
  by (simp add: sweep_main_def Let_def split: option.splits console_input.splits)

lemma retry_main_declined:
  "find_capture_keys_exe (path_exists w) \<noteq> None \<Longrightarrow> console w = Line l \<Longrightarrow>
   lower (strip l) \<noteq> ''y'' \<Longrightarrow> retry_main w = \<lparr> outcome = Exit 0, written = None \<rparr>"
  by (auto simp: retry_main_def Let_def split: option.splits)

section \<open>A full sweep with two reports\<close>

lemma map_filter_restrict:
  "(\<And>c. c \<in> set cs \<Longrightarrow> \<not> P c \<Longrightarrow> f c = None)
     \<Longrightarrow> List.map_filter f cs = List.map_filter f (filter P cs)"
  by (induction cs) (auto simp: List.map_filter_simps split: option.splits)

lemma filter_rows:
  "filter (\<lambda>c. P (fst c))
      (concat (map (\<lambda>key. map (\<lambda>(ctrl, shift, alt). (key, ctrl, shift, alt)) ms) ks))
    = concat (map (\<lambda>key. map (\<lambda>(ctrl, shift, alt). (key, ctrl, shift, alt)) ms) (filter P ks))"
proof (induction ks)
  case Nil
  show ?case by simp
next
  case (Cons k ks)
  have "filter (\<lambda>c. P (fst c)) (map (\<lambda>(ctrl, shift, alt). (k, ctrl, shift, alt)) ms)
      = (if P k then map (\<lambda>(ctrl, shift, alt). (k, ctrl, shift, alt)) ms else [])"
    by (induction ms) auto
  then show ?case using Cons.IH by simp
qed

lemma example_two_rows:
  "filter (\<lambda>c. fst c = ''a'' \<or> fst c = ''b'') generate_all_combinations
     = map (\<lambda>(ctrl, shift, alt). (''a'', ctrl, shift, alt)) MODIFIERS
       @ map (\<lambda>(ctrl, shift, alt). (''b'', ctrl, shift, alt)) MODIFIERS"
proof -
  have "filter (\<lambda>k. k = ''a'' \<or> k = ''b'') US_KEYS = [''a'', ''b'']"
    by (simp add: US_KEYS_def)
  then show ?thesis
    unfolding generate_all_combinations_def
    using filter_rows [of "\<lambda>k. k = ''a'' \<or> k = ''b''" MODIFIERS US_KEYS] by simp
qed

lemma example_two_capture:
  "sweep_capture example_helper_two (key, ctrl, shift, alt) =
     (if (key, ctrl, shift, alt) = (''a'', True, False, False) then Some example_ctrl_a
      else if (key, ctrl, shift, alt) = (''b'', False, False, False) then Some example_b
      else None)"
proof -
  have "map_key_to_pynput ''a'' = Some (KeyCode ''a'')"
    and "map_key_to_pynput ''b'' = Some (KeyCode ''b'')" by code_simp+
  moreover have "sweep_combo_str ''a'' True False False = ''Ctrl+A''"
    and "sweep_combo_str ''b'' False False False = ''B''" by code_simp+
  ultimately show ?thesis
    by (auto simp: sweep_capture_def capture_key_combo_def example_helper_two_def
          example_ctrl_a_def example_b_def sweep_result_def retry_result_def
          split: option.splits)
qed

lemma example_two_results:
  "generate_combinations example_helper_two = [example_ctrl_a, example_b]"
proof -
  have "List.map_filter (sweep_capture example_helper_two) generate_all_combinations
      = List.map_filter (sweep_capture example_helper_two)
          (filter (\<lambda>c. fst c = ''a'' \<or> fst c = ''b'') generate_all_combinations)"
  proof (rule map_filter_restrict)
    fix c :: combo
    assume "\<not> (fst c = ''a'' \<or> fst c = ''b'')"
    then show "sweep_capture example_helper_two c = None"
      by (cases c) (simp add: example_two_capture)
  qed
  then show ?thesis
    unfolding generate_combinations_eq example_two_rows
    by (simp add: MODIFIERS_def List.map_filter_simps example_two_capture)
qed

lemma example_sweep_order: "\<not> sweep_sort_key example_ctrl_a \<le> sweep_sort_key example_b"
  by (simp add: sweep_sort_key_def example_b_def example_ctrl_a_def sweep_result_def
        retry_result_def)

lemma example_sweep_two_run:
  "sweep_main example_sweep_world =
     \<lparr> outcome = Exit 0,
       written = Some \<lparr> generated_at = ''2024-06-01 12:00:00'',
                        total_combinations = 2,
                        combinations = [example_b, example_ctrl_a] \<rparr> \<rparr>"
proof -
  have "console example_sweep_world = Line []"
    and "helper_reports example_sweep_world = example_helper_two"
    and "clock example_sweep_world = ''2024-06-01 12:00:00''"
    and "path_exists example_sweep_world = path_exists (example_world [])"
    by (simp_all add: example_sweep_world_def example_world_def)
  then show ?thesis
    unfolding sweep_main_def Let_def
    using example_sweep_order
    by (simp add: example_exe example_two_results)
qed

section \<open>Claims about the orchestrators\<close>

text \<open>
  C2: the list of missing combinations that the retry orchestrator computes is the
  full combination space without the keys of the records in the loaded store, in the
  generator's order; every record the retry captures has a key outside the loaded
  store; and a store that the retry orchestrator writes has at least as many records as
  the loaded one (and its \<open>total_combinations\<close> is its number of records).
\<close>

theorem retry_diff_and_growth:
  "find_failed_combinations (load_existing_combinations f)
     = filter (\<lambda>c. c \<notin> combo_key ` set (load_results f)) generate_all_combinations
   \<and> set (find_failed_combinations (load_existing_combinations f))
       = set generate_all_combinations - combo_key ` set (load_results f)
   \<and> combo_key ` set (retry_failed_combinations h
         (find_failed_combinations (load_existing_combinations f)))
       \<inter> combo_key ` set (load_results f) = {}
   \<and> (\<forall>s. written (retry_main w) = Some s \<longrightarrow>
          length (load_results (store w)) \<le> length (combinations s)
          \<and> total_combinations s = length (combinations s))"
proof -
  let ?E = "combo_key ` set (load_results f)"
  have a: "find_failed_combinations (load_existing_combinations f)
      = filter (\<lambda>c. c \<notin> ?E) generate_all_combinations"
    by (simp add: find_failed_combinations_def load_existing_combinations_eq)
  have b: "set (find_failed_combinations (load_existing_combinations f))
      = set generate_all_combinations - ?E"
    unfolding a by auto
  have "set (map combo_key (retry_failed_combinations h
          (find_failed_combinations (load_existing_combinations f))))
        \<subseteq> set (find_failed_combinations (load_existing_combinations f))"
    unfolding keys_retry_failed_combinations by auto
  then have c: "combo_key ` set (retry_failed_combinations h
         (find_failed_combinations (load_existing_combinations f))) \<inter> ?E = {}"
    unfolding b by auto
  have d: "length (load_results (store w)) \<le> length (combinations s)
          \<and> total_combinations s = length (combinations s)"
    if "written (retry_main w) = Some s" for s
    using written_retry_main [OF that] length_merge_lists [of "load_results (store w)"]
    by (simp add: merge_results_def)
  from a b c d show ?thesis by blast
qed

theorem retry_diff_and_growth_witness:
  "written (retry_main (example_world '' Y '')) =
     Some \<lparr> generated_at = ''2024-06-01 12:00:00'', total_combinations = 2,
            combinations = [example_ctrl_a, example_b] \<rparr>
   \<and> load_results (store (example_world '' Y '')) = [example_b]
   \<and> length (load_results (store (example_world '' Y '')))
       \<le> length (combinations \<lparr> generated_at = ''2024-06-01 12:00:00'', total_combinations = 2,
            combinations = [example_ctrl_a, example_b] \<rparr>)"
proof -
  have a: "written (retry_main (example_world '' Y '')) =
     Some \<lparr> generated_at = ''2024-06-01 12:00:00'', total_combinations = 2,
            combinations = [example_ctrl_a, example_b] \<rparr>"
    by (simp add: example_retry_run)
  have b: "load_results (store (example_world '' Y '')) = [example_b]"
    by (simp add: example_world_def example_store_def load_results_def)
  from retry_diff_and_growth [of _ _ "example_world '' Y ''"] a b show ?thesis by blast
qed

lemma sweep_main_status:
  "exit_status (outcome (sweep_main w)) =
     (case find_capture_keys_exe (path_exists w) of
        None \<Rightarrow> Status 1
      | Some p \<Rightarrow> (case console w of Interrupt \<Rightarrow> Status 1 | Eof \<Rightarrow> Status 1 | Line l \<Rightarrow> Status 0))"
  unfolding outcome_sweep_main by (simp split: option.splits console_input.splits)

lemma sweep_main_uncaught:
  "(\<exists>e. outcome (sweep_main w) = Uncaught e) =
     (find_capture_keys_exe (path_exists w) \<noteq> None \<and> console w = Eof)"
  unfolding outcome_sweep_main by (auto split: option.splits console_input.splits)

lemma retry_main_absent:
  "find_capture_keys_exe (path_exists w) = None \<Longrightarrow> outcome (retry_main w) = Exit 1"
  by (simp add: retry_main_def)

lemma retry_main_present:
  "find_capture_keys_exe (path_exists w) \<noteq> None \<Longrightarrow>
     outcome (retry_main w) = Exit 0 \<or> (\<exists>e. outcome (retry_main w) = Uncaught e)"
  by (auto simp: retry_main_def Let_def split: option.splits console_input.splits)

lemma example_answer_ascii: "ascii_only ''n''"
  by code_simp

text \<open>
  C3, as the code has it, on the status with which the process ends. Both orchestrators
  end with the status 1 when the helper binary is absent. With the binary in place, the
  full sweep ends with 1 when the user interrupts its prompt and with 0 when the user
  enters a line; the retry tool ends with 0, and writes nothing, when the user answers
  its prompt with anything but "y", and it ends with 0 whenever its \<open>main\<close> returns.
  With the binary in place, a run ends with another status than 0 only in the sweep's
  interrupt case or through an exception that nothing catches.
\<close>

theorem exit_codes:
  "(find_capture_keys_exe (path_exists w) = None \<longrightarrow>
      exit_status (outcome (sweep_main w)) = Status 1
      \<and> exit_status (outcome (retry_main w)) = Status 1)
   \<and> (find_capture_keys_exe (path_exists w) \<noteq> None \<and> console w = Interrupt \<longrightarrow>
      exit_status (outcome (sweep_main w)) = Status 1)
   \<and> (\<forall>l. find_capture_keys_exe (path_exists w) \<noteq> None \<and> console w = Line l \<longrightarrow>
      exit_status (outcome (sweep_main w)) = Status 0)
   \<and> (\<forall>l. find_capture_keys_exe (path_exists w) \<noteq> None \<and> console w = Line l
          \<and> ascii_only l \<and> lower (strip l) \<noteq> ''y'' \<longrightarrow>
      exit_status (outcome (retry_main w)) = Status 0 \<and> written (retry_main w) = None)
   \<and> (find_capture_keys_exe (path_exists w) \<noteq> None \<longrightarrow>
      exit_status (outcome (sweep_main w)) = Status 0
      \<or> console w = Interrupt
      \<or> (\<exists>e. outcome (sweep_main w) = Uncaught e))
   \<and> (find_capture_keys_exe (path_exists w) \<noteq> None \<longrightarrow>
      exit_status (outcome (retry_main w)) = Status 0
      \<or> (\<exists>e. outcome (retry_main w) = Uncaught e))"
proof -
  have a: "exit_status (outcome (sweep_main w)) = Status 1
      \<and> exit_status (outcome (retry_main w)) = Status 1"
    if "find_capture_keys_exe (path_exists w) = None"
    using that by (simp add: sweep_main_status retry_main_absent)
  have b: "exit_status (outcome (sweep_main w)) = Status 1"
    if "find_capture_keys_exe (path_exists w) \<noteq> None \<and> console w = Interrupt"
    using that by (auto simp: sweep_main_status)
  have c: "exit_status (outcome (sweep_main w)) = Status 0"
    if "find_capture_keys_exe (path_exists w) \<noteq> None \<and> console w = Line l" for l
    using that by (auto simp: sweep_main_status)
  have d: "exit_status (outcome (retry_main w)) = Status 0 \<and> written (retry_main w) = None"
    if "find_capture_keys_exe (path_exists w) \<noteq> None \<and> console w = Line l
          \<and> ascii_only l \<and> lower (strip l) \<noteq> ''y''" for l
    using that retry_main_declined [of w l] by simp
  have e: "exit_status (outcome (sweep_main w)) = Status 0
      \<or> console w = Interrupt
      \<or> (\<exists>e. outcome (sweep_main w) = Uncaught e)"
    if "find_capture_keys_exe (path_exists w) \<noteq> None"
    using that unfolding sweep_main_uncaught
    by (cases "console w") (auto simp: sweep_main_status)
  have f: "exit_status (outcome (retry_main w)) = Status 0
      \<or> (\<exists>e. outcome (retry_main w) = Uncaught e)"
    if "find_capture_keys_exe (path_exists w) \<noteq> None"
    using retry_main_present [OF that] by auto
  from a b c d e f show ?thesis by blast
qed

theorem exit_codes_witness:
  "find_capture_keys_exe (path_exists (example_world ''n'')) \<noteq> None
   \<and> console (example_world ''n'') = Line ''n''
   \<and> ascii_only ''n''
   \<and> lower (strip ''n'') \<noteq> ''y''
   \<and> exit_status (outcome (retry_main (example_world ''n''))) = Status 0
   \<and> written (retry_main (example_world ''n'')) = None
   \<and> exit_status (outcome (sweep_main (example_world ''n''))) = Status 0
   \<and> find_capture_keys_exe (path_exists ((example_world ''n'')\<lparr>path_exists := \<lambda>p. False\<rparr>)) = None
   \<and> exit_status (outcome (sweep_main ((example_world ''n'')\<lparr>path_exists := \<lambda>p. False\<rparr>)))
       = Status 1
   \<and> exit_status (outcome (retry_main ((example_world ''n'')\<lparr>path_exists := \<lambda>p. False\<rparr>)))
       = Status 1"
proof -
  let ?absent = "(example_world ''n'')\<lparr>path_exists := \<lambda>p. False\<rparr>"
  have a: "find_capture_keys_exe (path_exists (example_world ''n'')) \<noteq> None"
    by (simp add: example_exe)
  have b: "console (example_world ''n'') = Line ''n''"
    by (simp add: example_world_def)
  have c: "find_capture_keys_exe (path_exists ?absent) = None"
    by (simp add: find_capture_keys_exe_def)
  from exit_codes [of "example_world ''n''"] a b example_answer_ascii example_answer_no
  have "exit_status (outcome (retry_main (example_world ''n''))) = Status 0
      \<and> written (retry_main (example_world ''n'')) = None
      \<and> exit_status (outcome (sweep_main (example_world ''n''))) = Status 0"
    by blast
  moreover from exit_codes [of ?absent] c
  have "exit_status (outcome (sweep_main ?absent)) = Status 1
      \<and> exit_status (outcome (retry_main ?absent)) = Status 1"
    by blast
  ultimately show ?thesis
    using a b c example_answer_ascii example_answer_no by blast
qed

text \<open>
  C3 as stated fails for the retry tool: with the helper binary in place and missing
  combinations to retry, the answer "n" at the confirmation prompt ends the process
  with the status 0, not 1.
\<close>

theorem retry_cancel_counterexample:
  "find_capture_keys_exe (path_exists (example_world ''n'')) = Some ''capture_keys.exe''
   \<and> find_failed_combinations (load_existing_combinations (store (example_world ''n''))) \<noteq> []
   \<and> console (example_world ''n'') = Line ''n''
   \<and> outcome (retry_main (example_world ''n'')) = Exit 0
   \<and> exit_status (outcome (retry_main (example_world ''n''))) = Status 0
   \<and> exit_status (outcome (retry_main (example_world ''n''))) \<noteq> Status 1"
proof -
  have "find_failed_combinations (load_existing_combinations (store (example_world ''n''))) \<noteq> []"
    unfolding example_failed using example_ctrl_a_failed by fastforce
  moreover have "console (example_world ''n'') = Line ''n''"
    by (simp add: example_world_def)
  ultimately show ?thesis
    by (simp add: example_exe example_retry_declined)
qed

text \<open>
  C4, as the code has it: each orchestrator sorts the records before it writes the
  store, the full sweep by (ctrl, shift, alt, key name) and the retry tool by
  (key name, ctrl, shift, alt).
\<close>

theorem stores_written_sorted:
  "(\<forall>s. written (sweep_main w) = Some s \<longrightarrow>
       combinations s = sort_key sweep_sort_key (generate_combinations (helper_reports w))
       \<and> sorted (map sweep_sort_key (combinations s)))
   \<and> (\<forall>s. written (retry_main w) = Some s \<longrightarrow>
       combinations s = sort_key retry_sort_key
         (merge_results (store w)
            (retry_failed_combinations (helper_reports w)
               (find_failed_combinations (load_existing_combinations (store w)))))
       \<and> sorted (map retry_sort_key (combinations s)))"
proof -
  have a: "combinations s = sort_key sweep_sort_key (generate_combinations (helper_reports w))
       \<and> sorted (map sweep_sort_key (combinations s))"
    if "written (sweep_main w) = Some s" for s
    using written_sweep_main [OF that] by simp
  have b: "combinations s = sort_key retry_sort_key
         (merge_results (store w)
            (retry_failed_combinations (helper_reports w)
               (find_failed_combinations (load_existing_combinations (store w)))))
       \<and> sorted (map retry_sort_key (combinations s))"
    if "written (retry_main w) = Some s" for s
    using written_retry_main [OF that] by simp
  from a b show ?thesis by blast
qed

theorem stores_written_sorted_witness:
  "written (sweep_main example_sweep_world) =
     Some \<lparr> generated_at = ''2024-06-01 12:00:00'', total_combinations = 2,
            combinations = [example_b, example_ctrl_a] \<rparr>
   \<and> generate_combinations (helper_reports example_sweep_world) = [example_ctrl_a, example_b]
   \<and> sorted (map sweep_sort_key [example_b, example_ctrl_a])
   \<and> written (retry_main (example_world '' Y '')) =
     Some \<lparr> generated_at = ''2024-06-01 12:00:00'', total_combinations = 2,
            combinations = [example_ctrl_a, example_b] \<rparr>
   \<and> sorted (map retry_sort_key [example_ctrl_a, example_b])"
proof -
  have a: "written (sweep_main example_sweep_world) =
     Some \<lparr> generated_at = ''2024-06-01 12:00:00'', total_combinations = 2,
            combinations = [example_b, example_ctrl_a] \<rparr>"
    by (simp add: example_sweep_two_run)
  have b: "written (retry_main (example_world '' Y '')) =
     Some \<lparr> generated_at = ''2024-06-01 12:00:00'', total_combinations = 2,
            combinations = [example_ctrl_a, example_b] \<rparr>"
    by (simp add: example_retry_run)
  have c: "generate_combinations (helper_reports example_sweep_world) = [example_ctrl_a, example_b]"
    by (simp add: example_sweep_world_def example_two_results)
  have "sorted (map retry_sort_key [example_ctrl_a, example_b])"
    using stores_written_sorted [of "example_world '' Y ''"] b by fastforce
  moreover have "sorted (map sweep_sort_key [example_b, example_ctrl_a])"
    using stores_written_sorted [of example_sweep_world] a by fastforce
  ultimately show ?thesis using a b c by simp
qed

text \<open>
  C4 as stated fails for the retry tool: the store it writes in the example run lists
  Ctrl+A before the plain key B, which the order (ctrl, shift, alt, key name) puts
  after it.
\<close>

theorem retry_order_counterexample:
  "written (retry_main (example_world '' Y '')) =
     Some \<lparr> generated_at = ''2024-06-01 12:00:00'', total_combinations = 2,
            combinations = [example_ctrl_a, example_b] \<rparr>
   \<and> \<not> sorted (map sweep_sort_key [example_ctrl_a, example_b])"
proof -
  have "\<not> sweep_sort_key example_ctrl_a \<le> sweep_sort_key example_b"
    by (simp add: sweep_sort_key_def example_b_def example_ctrl_a_def sweep_result_def
          retry_result_def)
  then show ?thesis
    by (simp add: example_retry_run)
qed

section \<open>The hexadecimal renderings of a record\<close>

lemma sweep_result_hex:
  "r_ascii (sweep_result k c s a l cap) = cap_ascii cap"
  "r_unicode (sweep_result k c s a l cap) = cap_unicode cap"
  "r_ascii_hex (sweep_result k c s a l cap) =
     (case cap_ascii cap of None \<Rightarrow> None
      | Some n \<Rightarrow> if n = 0 then None else Some (''0x'' @ format_X 2 n))"
  "r_unicode_hex (sweep_result k c s a l cap) =
     (case cap_unicode cap of None \<Rightarrow> None
      | Some n \<Rightarrow> if n = 0 then None else Some (''0x'' @ format_X 4 n))"
  by (simp_all add: sweep_result_def truthy_def get_or_def split: option.splits)

lemma retry_result_hex:
  "r_ascii (retry_result k c s a l cap) = cap_ascii cap"
  "r_unicode (retry_result k c s a l cap) = cap_unicode cap"
  "r_ascii_hex (retry_result k c s a l cap) =
     (case cap_ascii cap of None \<Rightarrow> None
      | Some n \<Rightarrow> if n = 0 then None else Some (''0x'' @ format_X 2 n))"
  "r_unicode_hex (retry_result k c s a l cap) =
     (case cap_unicode cap of None \<Rightarrow> None
      | Some n \<Rightarrow> if n = 0 then None else Some (''0x'' @ format_X 4 n))"
  by (simp_all add: retry_result_def truthy_def get_or_def split: option.splits)

lemma map_filter_member:
  "r \<in> set (List.map_filter f cs) \<Longrightarrow> \<exists>c. f c = Some r"
  by (auto simp: List.map_filter_def)

lemma sweep_record_shape:
  assumes "r \<in> set (generate_combinations h)"
  shows "\<exists>k c s a l cap. r = sweep_result k c s a l cap"
proof -
  from assms obtain x where "sweep_capture h x = Some r"
    unfolding generate_combinations_eq by (blast dest: map_filter_member)
  then show ?thesis
    by (cases x) (clarsimp simp: sweep_capture_def, blast)
qed

lemma retry_record_shape:
  assumes "r \<in> set (retry_failed_combinations h cs)"
  shows "\<exists>k c s a l cap. r = retry_result k c s a l cap"
proof -
  from assms obtain x where "retry_capture h x = Some r"
    unfolding retry_failed_combinations_eq by (blast dest: map_filter_member)
  then show ?thesis
    by (cases x) (clarsimp simp: retry_capture_def, blast)
qed

text \<open>
  C9: in every record that either capture loop builds, \<open>ascii_hex\<close> is null when
  \<open>ascii\<close> is null and also when \<open>ascii\<close> is 0, and is the rendering "0x" with at least
  two upper-case hexadecimal digits otherwise; the record keeps the reported \<open>ascii\<close>
  itself, so a reported 0 gives \<open>ascii = 0\<close> with \<open>ascii_hex = null\<close>. The same holds for
  \<open>unicode\<close> and \<open>unicode_hex\<close>, with at least four digits.
\<close>

theorem hex_null_for_zero_and_null:
  "(\<forall>r \<in> set (generate_combinations h) \<union> set (retry_failed_combinations h cs).
      r_ascii_hex r =
        (case r_ascii r of None \<Rightarrow> None
         | Some n \<Rightarrow> if n = 0 then None else Some (''0x'' @ format_X 2 n))
      \<and> r_unicode_hex r =
        (case r_unicode r of None \<Rightarrow> None
         | Some n \<Rightarrow> if n = 0 then None else Some (''0x'' @ format_X 4 n)))
   \<and> r_ascii (sweep_result k c s a l (cap\<lparr>cap_ascii := Some 0\<rparr>)) = Some 0
   \<and> r_ascii_hex (sweep_result k c s a l (cap\<lparr>cap_ascii := Some 0\<rparr>)) = None
   \<and> r_unicode (sweep_result k c s a l (cap\<lparr>cap_unicode := Some 0\<rparr>)) = Some 0
   \<and> r_unicode_hex (sweep_result k c s a l (cap\<lparr>cap_unicode := Some 0\<rparr>)) = None
   \<and> r_ascii (retry_result k c s a l (cap\<lparr>cap_ascii := Some 0\<rparr>)) = Some 0
   \<and> r_ascii_hex (retry_result k c s a l (cap\<lparr>cap_ascii := Some 0\<rparr>)) = None
   \<and> r_unicode (retry_result k c s a l (cap\<lparr>cap_unicode := Some 0\<rparr>)) = Some 0
   \<and> r_unicode_hex (retry_result k c s a l (cap\<lparr>cap_unicode := Some 0\<rparr>)) = None"
proof -
  have "r_ascii_hex r =
        (case r_ascii r of None \<Rightarrow> None
         | Some n \<Rightarrow> if n = 0 then None else Some (''0x'' @ format_X 2 n))
      \<and> r_unicode_hex r =
        (case r_unicode r of None \<Rightarrow> None
         | Some n \<Rightarrow> if n = 0 then None else Some (''0x'' @ format_X 4 n))"
    if "r \<in> set (generate_combinations h) \<union> set (retry_failed_combinations h cs)" for r
  proof -
    from that consider "r \<in> set (generate_combinations h)"
      | "r \<in> set (retry_failed_combinations h cs)" by blast
    then show ?thesis
    proof cases
      case 1
      then obtain k c s a l cap where "r = sweep_result k c s a l cap"
        using sweep_record_shape by blast
      then show ?thesis by (simp add: sweep_result_hex)
    next
      case 2
      then obtain k c s a l cap where "r = retry_result k c s a l cap"
        using retry_record_shape by blast
      then show ?thesis by (simp add: retry_result_hex)
    qed
  qed
  then show ?thesis
    by (simp add: sweep_result_hex retry_result_hex)
qed

lemma example_up_results:
  "generate_combinations example_helper_up =
     [sweep_result ''up'' False False False (sweep_combo_str ''up'' False False False)
        \<lparr> cap_vk = 38, cap_ascii = Some 0, cap_unicode = None \<rparr>]"
proof -
  have "''up'' \<in> set US_KEYS" by (simp add: US_KEYS_def)
  then show ?thesis
    using single_report_sweep [of example_helper_up "''up''" False False False
        "\<lparr> cap_vk = 38, cap_ascii = Some 0, cap_unicode = None \<rparr>"]
    by (simp add: example_helper_up_def)
qed

theorem hex_null_for_zero_and_null_witness:
  "generate_combinations example_helper_up =
     [sweep_result ''up'' False False False (sweep_combo_str ''up'' False False False)
        \<lparr> cap_vk = 38, cap_ascii = Some 0, cap_unicode = None \<rparr>]
   \<and> r_ascii (sweep_result ''up'' False False False (sweep_combo_str ''up'' False False False)
        \<lparr> cap_vk = 38, cap_ascii = Some 0, cap_unicode = None \<rparr>) = Some 0
   \<and> r_ascii_hex (sweep_result ''up'' False False False (sweep_combo_str ''up'' False False False)
        \<lparr> cap_vk = 38, cap_ascii = Some 0, cap_unicode = None \<rparr>) = None
   \<and> r_unicode_hex (sweep_result ''up'' False False False (sweep_combo_str ''up'' False False False)
        \<lparr> cap_vk = 38, cap_ascii = Some 0, cap_unicode = None \<rparr>) = None"
proof -
  let ?r = "sweep_result ''up'' False False False (sweep_combo_str ''up'' False False False)
        \<lparr> cap_vk = 38, cap_ascii = Some 0, cap_unicode = None \<rparr>"
  have m: "?r \<in> set (generate_combinations example_helper_up) \<union> set (retry_failed_combinations example_helper_up [])"
    by (simp add: example_up_results)
  have a: "r_ascii ?r = Some 0" and u: "r_unicode ?r = None"
    by (simp_all add: sweep_result_def)
  from hex_null_for_zero_and_null [of example_helper_up "[]"] m
  have "r_ascii_hex ?r =
        (case r_ascii ?r of None \<Rightarrow> None
         | Some n \<Rightarrow> if n = 0 then None else Some (''0x'' @ format_X 2 n))
      \<and> r_unicode_hex ?r =
        (case r_unicode ?r of None \<Rightarrow> None
         | Some n \<Rightarrow> if n = 0 then None else Some (''0x'' @ format_X 4 n))"
    by blast
  then show ?thesis
    unfolding a u using example_up_results a by simp
qed

end
